theory Spec2Isabelle
  imports Complex_Main
begin

section \<open>JavaScript numbers\<close>

text \<open>
  The TypeScript sources compute with \<^verbatim>\<open>number\<close>. A finite double is idealised as a
  real (rounding is not modelled); the three non-finite values are kept, because the
  timeline code divides by the rendered width of its axis and reads a media duration
  that the browser may report as non-finite. The sign of zero is not distinguished:
  a zero divisor is taken to be \<^verbatim>\<open>+0\<close>, which is what a bounding rectangle's width is.
\<close>

datatype jsnum = Fin real | PInf | NInf | NaN

fun Number_isFinite :: "jsnum \<Rightarrow> bool" where
  "Number_isFinite (Fin a) = True"
| "Number_isFinite PInf = False"
| "Number_isFinite NInf = False"
| "Number_isFinite NaN = False"

fun jneg :: "jsnum \<Rightarrow> jsnum" where
  "jneg (Fin a) = Fin (- a)"
| "jneg PInf = NInf"
| "jneg NInf = PInf"
| "jneg NaN = NaN"

fun jadd :: "jsnum \<Rightarrow> jsnum \<Rightarrow> jsnum" where
  "jadd (Fin a) (Fin b) = Fin (a + b)"
| "jadd (Fin a) PInf = PInf"
| "jadd (Fin a) NInf = NInf"
| "jadd PInf (Fin b) = PInf"
| "jadd PInf PInf = PInf"
| "jadd NInf (Fin b) = NInf"
| "jadd NInf NInf = NInf"
| "jadd PInf NInf = NaN"
| "jadd NInf PInf = NaN"
| "jadd NaN y = NaN"
| "jadd x NaN = NaN"

definition jsub :: "jsnum \<Rightarrow> jsnum \<Rightarrow> jsnum" where
  "jsub x y = jadd x (jneg y)"

text \<open>The sign of an infinite product or quotient, from the sign of the finite factor.\<close>

definition signed_inf :: "real \<Rightarrow> jsnum" where
  "signed_inf a = (if 0 < a then PInf else if a < 0 then NInf else NaN)"

fun jmul :: "jsnum \<Rightarrow> jsnum \<Rightarrow> jsnum" where
  "jmul (Fin a) (Fin b) = Fin (a * b)"
| "jmul (Fin a) PInf = signed_inf a"
| "jmul (Fin a) NInf = signed_inf (- a)"
| "jmul PInf (Fin b) = signed_inf b"
| "jmul NInf (Fin b) = signed_inf (- b)"
| "jmul PInf PInf = PInf"
| "jmul NInf NInf = PInf"
| "jmul PInf NInf = NInf"
| "jmul NInf PInf = NInf"
| "jmul NaN y = NaN"
| "jmul x NaN = NaN"

fun jdiv :: "jsnum \<Rightarrow> jsnum \<Rightarrow> jsnum" where
  "jdiv (Fin a) (Fin b) = (if b = 0 then signed_inf a else Fin (a / b))"
| "jdiv (Fin a) PInf = Fin 0"
| "jdiv (Fin a) NInf = Fin 0"
| "jdiv PInf (Fin b) = (if 0 \<le> b then PInf else NInf)"
| "jdiv NInf (Fin b) = (if 0 \<le> b then NInf else PInf)"
| "jdiv PInf PInf = NaN"
| "jdiv PInf NInf = NaN"
| "jdiv NInf PInf = NaN"
| "jdiv NInf NInf = NaN"
| "jdiv NaN y = NaN"
| "jdiv x NaN = NaN"

text \<open>Comparisons: every comparison with \<^verbatim>\<open>NaN\<close> is false.\<close>

fun jlt :: "jsnum \<Rightarrow> jsnum \<Rightarrow> bool" where
  "jlt (Fin a) (Fin b) = (a < b)"
| "jlt (Fin a) PInf = True"
| "jlt NInf (Fin b) = True"
| "jlt NInf PInf = True"
| "jlt x y = False"

fun jle :: "jsnum \<Rightarrow> jsnum \<Rightarrow> bool" where
  "jle (Fin a) (Fin b) = (a \<le> b)"
| "jle (Fin a) PInf = True"
| "jle NInf (Fin b) = True"
| "jle NInf PInf = True"
| "jle PInf PInf = True"
| "jle NInf NInf = True"
| "jle x y = False"

text \<open>Strict equality \<^verbatim>\<open>===\<close> on numbers: \<^verbatim>\<open>NaN\<close> equals nothing, itself included.\<close>

definition jeq :: "jsnum \<Rightarrow> jsnum \<Rightarrow> bool" where
  "jeq x y = (x \<noteq> NaN \<and> y \<noteq> NaN \<and> x = y)"

text \<open>\<^verbatim>\<open>Math.max\<close>, \<^verbatim>\<open>Math.min\<close> and \<^verbatim>\<open>Math.abs\<close>: \<^verbatim>\<open>NaN\<close> in, \<^verbatim>\<open>NaN\<close> out.\<close>

definition Math_max :: "jsnum \<Rightarrow> jsnum \<Rightarrow> jsnum" where
  "Math_max x y = (if x = NaN \<or> y = NaN then NaN else if jle x y then y else x)"

definition Math_min :: "jsnum \<Rightarrow> jsnum \<Rightarrow> jsnum" where
  "Math_min x y = (if x = NaN \<or> y = NaN then NaN else if jle x y then x else y)"

fun Math_abs :: "jsnum \<Rightarrow> jsnum" where
  "Math_abs (Fin a) = Fin \<bar>a\<bar>"
| "Math_abs PInf = PInf"
| "Math_abs NInf = PInf"
| "Math_abs NaN = NaN"

section \<open>The timeline component\<close>

subsection \<open>Data\<close>

record FrameThumbnail =
  timestamp :: jsnum
  url :: string

record TimeRange =
  tr_start :: jsnum
  tr_end :: jsnum

datatype TrimDragMode = Mode_move | Mode_start | Mode_end

text \<open>The object held in the \<^verbatim>\<open>trimDrag\<close> state cell while a trim gesture is active.\<close>

record TrimDrag =
  mode :: TrimDragMode
  startX :: jsnum
  startRange :: TimeRange

record HoverInfo =
  hover_x :: jsnum
  hover_time :: jsnum
  hover_url :: "string option"

text \<open>The properties the component is rendered with; the two callbacks are the
  values the handlers emit, below.\<close>

record TimelineProps =
  duration :: jsnum
  currentTime :: jsnum
  frames :: "FrameThumbnail list"
  trimRange :: "TimeRange option"

datatype callback = OnSeek jsnum | OnTrimRangeChange TimeRange

text \<open>What \<^verbatim>\<open>getBoundingClientRect\<close> reports for the axis element, and
  \<^verbatim>\<open>containerRef.current\<close>: the element, or null.\<close>

record DOMRect =
  rect_left :: jsnum
  rect_width :: jsnum

type_synonym containerRef = "DOMRect option"

record PointerEvent =
  clientX :: jsnum
  pointerId :: nat
  pointerType :: string
  role :: "string option"

text \<open>The component's three state cells, and the pointer ids the axis element has
  captured.\<close>

record TimelineState =
  hoverInfo :: "HoverInfo option"
  isScrubbing :: bool
  trimDrag :: "TrimDrag option"
  captured :: "nat set"

subsection \<open>Nearest frame, clamping, coordinate mapping\<close>

definition closer :: "jsnum \<Rightarrow> FrameThumbnail \<Rightarrow> FrameThumbnail \<Rightarrow> FrameThumbnail" where
  "closer time prv cur =
     (if jlt (Math_abs (jsub (timestamp cur) time)) (Math_abs (jsub (timestamp prv) time))
      then cur else prv)"

text \<open>\<^verbatim>\<open>reduce\<close> without an initial value starts from the first element.\<close>

definition findFrame :: "FrameThumbnail list \<Rightarrow> jsnum \<Rightarrow> FrameThumbnail option" where
  "findFrame fs time =
     (case fs of [] \<Rightarrow> None | f # rest \<Rightarrow> Some (foldl (closer time) f rest))"

definition clamp :: "jsnum \<Rightarrow> jsnum \<Rightarrow> jsnum \<Rightarrow> jsnum" where
  "clamp v lo hi = Math_min (Math_max v lo) hi"

record Position =
  pos_x :: jsnum
  pos_time :: jsnum

definition getPosition :: "TimelineProps \<Rightarrow> containerRef \<Rightarrow> jsnum \<Rightarrow> Position option" where
  "getPosition p c cx =
     (case c of
        None \<Rightarrow> None
      | Some rect \<Rightarrow>
          if jeq (duration p) (Fin 0) then None
          else
            let x = jsub cx (rect_left rect);
                pos = Math_max (Fin 0) (Math_min (Fin 1) (jdiv x (rect_width rect)))
            in Some \<lparr>pos_x = x, pos_time = jmul pos (duration p)\<rparr>)"

definition updateHover :: "TimelineProps \<Rightarrow> containerRef \<Rightarrow> jsnum \<Rightarrow> TimelineState \<Rightarrow> TimelineState" where
  "updateHover p c cx s =
     (case getPosition p c cx of
        None \<Rightarrow> s
      | Some pos \<Rightarrow>
          s\<lparr>hoverInfo := Some \<lparr>hover_x = pos_x pos, hover_time = pos_time pos,
                hover_url = (case findFrame (frames p) (pos_time pos) of
                               None \<Rightarrow> None | Some frame \<Rightarrow> Some (url frame))\<rparr>\<rparr>)"

definition scrubTo :: "TimelineProps \<Rightarrow> containerRef \<Rightarrow> jsnum \<Rightarrow> callback list" where
  "scrubTo p c cx =
     (case getPosition p c cx of None \<Rightarrow> [] | Some pos \<Rightarrow> [OnSeek (pos_time pos)])"

subsection \<open>Pointer handlers\<close>

text \<open>Each handler takes the state cells as the last render left them and returns
  them updated, with the callbacks it invoked, in order.\<close>

definition is_trim_role :: "string option \<Rightarrow> bool" where
  "is_trim_role r =
     (r = Some ''trim-range'' \<or> r = Some ''trim-handle-start'' \<or> r = Some ''trim-handle-end'')"

definition handlePointerDown ::
  "TimelineProps \<Rightarrow> containerRef \<Rightarrow> PointerEvent \<Rightarrow> TimelineState \<Rightarrow> TimelineState \<times> callback list" where
  "handlePointerDown p c e s =
     (if c = None \<or> jeq (duration p) (Fin 0) then (s, [])
      else
        case trimRange p of
          Some tr \<Rightarrow>
            if is_trim_role (role e) then
              let m = (if role e = Some ''trim-range'' then Mode_move
                       else if role e = Some ''trim-handle-start'' then Mode_start
                       else Mode_end)
              in (s\<lparr>captured := insert (pointerId e) (captured s),
                     trimDrag := Some \<lparr>mode = m, startX = clientX e, startRange = tr\<rparr>\<rparr>, [])
            else
              let s1 = s\<lparr>captured := insert (pointerId e) (captured s), isScrubbing := True\<rparr>
              in (if pointerType e = ''mouse'' then updateHover p c (clientX e) s1 else s1,
                  scrubTo p c (clientX e))
        | None \<Rightarrow>
            let s1 = s\<lparr>captured := insert (pointerId e) (captured s), isScrubbing := True\<rparr>
            in (if pointerType e = ''mouse'' then updateHover p c (clientX e) s1 else s1,
                scrubTo p c (clientX e)))"

definition handlePointerMove ::
  "TimelineProps \<Rightarrow> containerRef \<Rightarrow> PointerEvent \<Rightarrow> TimelineState \<Rightarrow> TimelineState \<times> callback list" where
  "handlePointerMove p c e s =
     (case c of
        None \<Rightarrow> (s, [])
      | Some rect \<Rightarrow>
          if jeq (duration p) (Fin 0) then (s, [])
          else
            case trimDrag s of
              Some td \<Rightarrow>
                let minDuration = Math_min (Fin 0.5) (duration p);
                    rangeDuration = jsub (tr_end (startRange td)) (tr_start (startRange td));
                    deltaTime = jmul (jdiv (jsub (clientX e) (startX td)) (rect_width rect)) (duration p)
                in (case mode td of
                      Mode_move \<Rightarrow>
                        let maxStart = Math_max (Fin 0) (jsub (duration p) rangeDuration);
                            nextStart = clamp (jadd (tr_start (startRange td)) deltaTime) (Fin 0) maxStart;
                            nextEnd = jadd nextStart rangeDuration
                        in (s, [OnTrimRangeChange \<lparr>tr_start = nextStart, tr_end = nextEnd\<rparr>])
                    | Mode_start \<Rightarrow>
                        (case getPosition p c (clientX e) of
                           None \<Rightarrow> (s, [])
                         | Some pos \<Rightarrow>
                             (s, [OnTrimRangeChange
                                    \<lparr>tr_start = clamp (pos_time pos) (Fin 0)
                                                 (jsub (tr_end (startRange td)) minDuration),
                                     tr_end = tr_end (startRange td)\<rparr>]))
                    | Mode_end \<Rightarrow>
                        (case getPosition p c (clientX e) of
                           None \<Rightarrow> (s, [])
                         | Some pos \<Rightarrow>
                             (s, [OnTrimRangeChange
                                    \<lparr>tr_start = tr_start (startRange td),
                                     tr_end = clamp (pos_time pos)
                                               (jadd (tr_start (startRange td)) minDuration)
                                               (duration p)\<rparr>])))
            | None \<Rightarrow>
                let s1 = (if pointerType e = ''mouse'' then updateHover p c (clientX e) s else s)
                in (s1, if isScrubbing s then scrubTo p c (clientX e) else []))"

text \<open>\<^verbatim>\<open>containerRef.current?.hasPointerCapture(id)\<close> guards the release; with no
  element there is nothing to release.\<close>

definition releaseCapture :: "containerRef \<Rightarrow> PointerEvent \<Rightarrow> TimelineState \<Rightarrow> TimelineState" where
  "releaseCapture c e s =
     (case c of
        None \<Rightarrow> s
      | Some rect \<Rightarrow>
          if pointerId e \<in> captured s then s\<lparr>captured := captured s - {pointerId e}\<rparr> else s)"

definition handlePointerUp ::
  "containerRef \<Rightarrow> PointerEvent \<Rightarrow> TimelineState \<Rightarrow> TimelineState \<times> callback list" where
  "handlePointerUp c e s =
     ((releaseCapture c e s)\<lparr>trimDrag := None, isScrubbing := False\<rparr>, [])"

definition handlePointerCancel ::
  "containerRef \<Rightarrow> PointerEvent \<Rightarrow> TimelineState \<Rightarrow> TimelineState \<times> callback list" where
  "handlePointerCancel c e s =
     ((releaseCapture c e s)\<lparr>isScrubbing := False, hoverInfo := None, trimDrag := None\<rparr>, [])"

definition handlePointerLeave :: "TimelineState \<Rightarrow> TimelineState \<times> callback list" where
  "handlePointerLeave s = (if \<not> isScrubbing s then s\<lparr>hoverInfo := None\<rparr> else s, [])"

section \<open>The owning session\<close>

text \<open>The part of the application component the timeline's callbacks reach: the video
  state cell, the trim range cell, and \<^verbatim>\<open>videoRef.current\<close>, the media element (or
  null) with its position and its paused flag. The \<^verbatim>\<open>file\<close> and \<^verbatim>\<open>url\<close> fields of the
  video state are left out: no handler below reads or writes them.\<close>

record VideoElement =
  el_currentTime :: jsnum
  el_paused :: bool

record VideoState =
  v_duration :: jsnum
  v_currentTime :: jsnum
  v_isPlaying :: bool
  v_isProcessing :: bool
  v_frames :: "FrameThumbnail list"

record App =
  video :: VideoState
  app_trimRange :: "TimeRange option"
  videoRef :: "VideoElement option"

definition clampToRange :: "jsnum \<Rightarrow> TimeRange option \<Rightarrow> jsnum" where
  "clampToRange time rng =
     (case rng of
        None \<Rightarrow> time
      | Some r \<Rightarrow> Math_min (Math_max time (tr_start r)) (tr_end r))"

text \<open>The local \<^verbatim>\<open>normalized\<close> of \<^verbatim>\<open>updateTrimRange\<close>: the range, its ends swapped
  when they come in the wrong order.\<close>

definition normalized :: "TimeRange \<Rightarrow> TimeRange" where
  "normalized r = (if jle (tr_start r) (tr_end r) then r
                   else \<lparr>tr_start = tr_end r, tr_end = tr_start r\<rparr>)"

definition updateTrimRange :: "TimeRange \<Rightarrow> App \<Rightarrow> App" where
  "updateTrimRange rng a =
     (let a1 = a\<lparr>app_trimRange := Some (normalized rng)\<rparr>
      in case videoRef a of
           None \<Rightarrow> a1
         | Some el \<Rightarrow>
             let clamped = clampToRange (el_currentTime el) (Some (normalized rng))
             in if \<not> jeq clamped (el_currentTime el)
                then a1\<lparr>videoRef := Some (el\<lparr>el_currentTime := clamped\<rparr>),
                        video := (video a)\<lparr>v_currentTime := clamped\<rparr>\<rparr>
                else a1)"

definition handleSeek :: "jsnum \<Rightarrow> App \<Rightarrow> App" where
  "handleSeek time a =
     (case videoRef a of
        None \<Rightarrow> a
      | Some el \<Rightarrow>
          let clamped = clampToRange time (app_trimRange a)
          in a\<lparr>videoRef := Some (el\<lparr>el_currentTime := clamped\<rparr>),
                video := (video a)\<lparr>v_currentTime := clamped\<rparr>\<rparr>)"

definition handleTimeUpdate :: "App \<Rightarrow> App" where
  "handleTimeUpdate a =
     (case videoRef a of
        None \<Rightarrow> a
      | Some el \<Rightarrow>
          let current = el_currentTime el;
              plain = a\<lparr>video := (video a)\<lparr>v_currentTime := current\<rparr>\<rparr>
          in case app_trimRange a of
               None \<Rightarrow> plain
             | Some tr \<Rightarrow>
                 if jlt current (tr_start tr) then
                   a\<lparr>videoRef := Some (el\<lparr>el_currentTime := tr_start tr\<rparr>),
                     video := (video a)\<lparr>v_currentTime := tr_start tr\<rparr>\<rparr>
                 else if jlt (tr_end tr) current then
                   a\<lparr>videoRef := Some (el\<lparr>el_paused := True, el_currentTime := tr_end tr\<rparr>),
                     video := (video a)\<lparr>v_currentTime := tr_end tr, v_isPlaying := False\<rparr>\<rparr>
                 else plain)"

definition handlePlayPause :: "App \<Rightarrow> App" where
  "handlePlayPause a =
     (case videoRef a of
        None \<Rightarrow> a
      | Some el \<Rightarrow>
          if v_isPlaying (video a) then
            a\<lparr>videoRef := Some (el\<lparr>el_paused := True\<rparr>),
              video := (video a)\<lparr>v_isPlaying := False\<rparr>\<rparr>
          else
            let rangeStart = (case app_trimRange a of Some tr \<Rightarrow> tr_start tr | None \<Rightarrow> Fin 0);
                rangeEnd = (case app_trimRange a of Some tr \<Rightarrow> tr_end tr
                            | None \<Rightarrow> v_duration (video a));
                atEnd = (Number_isFinite rangeEnd \<and>
                         jle (jsub rangeEnd (Fin 0.02)) (el_currentTime el));
                nextTime = clampToRange (if atEnd then rangeStart else el_currentTime el)
                             (app_trimRange a);
                el1 = (if \<not> jeq nextTime (el_currentTime el)
                       then el\<lparr>el_currentTime := nextTime\<rparr> else el)
            in a\<lparr>videoRef := Some (el1\<lparr>el_paused := False\<rparr>),
                 video := (video a)\<lparr>v_isPlaying := True, v_currentTime := nextTime\<rparr>\<rparr>)"

section \<open>The transcode backend and the frame extractors\<close>


subsection \<open>The memoised backend handle\<close>




subsection \<open>Sampling the timeline frames\<close>














section \<open>Properties stated over the model\<close>

text \<open>The invariant of a \<^verbatim>\<open>TimeRange\<close> against a duration: \<open>0 \<le> start \<le> end \<le> duration\<close>
  and \<open>end - start \<ge> min(0.5, duration)\<close>, in the comparisons of the program.\<close>

definition TimeRange_inv :: "jsnum \<Rightarrow> TimeRange \<Rightarrow> bool" where
  "TimeRange_inv d r =
     (jle (Fin 0) (tr_start r) \<and> jle (tr_start r) (tr_end r) \<and> jle (tr_end r) d \<and>
      jle (Math_min (Fin 0.5) d) (jsub (tr_end r) (tr_start r)))"

text \<open>The distance of a thumbnail from a query time, as the lookup compares it.\<close>

definition abs_diff :: "jsnum \<Rightarrow> FrameThumbnail \<Rightarrow> jsnum" where
  "abs_diff time f = Math_abs (jsub (timestamp f) time)"

text \<open>A position lies in a range.\<close>

definition in_range :: "jsnum \<Rightarrow> TimeRange \<Rightarrow> bool" where
  "in_range t r = (jle (tr_start r) t \<and> jle t (tr_end r))"




text \<open>The drag update as the design text gives it (section 4.5), to be compared with
  what \<open>handlePointerMove\<close> emits: the pointer's displacement as a time, and the new
  range in each of the three modes.\<close>

definition spec_deltaTime :: "jsnum \<Rightarrow> jsnum \<Rightarrow> jsnum \<Rightarrow> jsnum \<Rightarrow> jsnum" where
  "spec_deltaTime eventClientX pointerOriginX axisWidth d =
     jmul (jdiv (jsub eventClientX pointerOriginX) axisWidth) d"

definition spec_dragUpdate :: "TrimDragMode \<Rightarrow> TimeRange \<Rightarrow> jsnum \<Rightarrow> jsnum \<Rightarrow> jsnum \<Rightarrow> TimeRange" where
  "spec_dragUpdate m originRange d deltaTime mappedTime =
     (let span = jsub (tr_end originRange) (tr_start originRange);
          minSpan = Math_min (Fin 0.5) d
      in case m of
           Mode_move \<Rightarrow>
             (let start = clamp (jadd (tr_start originRange) deltaTime) (Fin 0) (jsub d span)
              in \<lparr>tr_start = start, tr_end = jadd start span\<rparr>)
         | Mode_start \<Rightarrow>
             \<lparr>tr_start = clamp mappedTime (Fin 0) (jsub (tr_end originRange) minSpan),
              tr_end = tr_end originRange\<rparr>
         | Mode_end \<Rightarrow>
             \<lparr>tr_start = tr_start originRange,
              tr_end = clamp mappedTime (jadd (tr_start originRange) minSpan) d\<rparr>)"

section \<open>Nearest-frame lookup\<close>

lemma abs_diff_Fin:
  "Number_isFinite (timestamp f) \<Longrightarrow> Number_isFinite time \<Longrightarrow> \<exists>r. abs_diff time f = Fin r"
  by (cases "timestamp f"; cases time) (simp_all add: abs_diff_def jsub_def)

lemma closer_abs_diff:
  "closer time prv cur = (if jlt (abs_diff time cur) (abs_diff time prv) then cur else prv)"
  by (simp add: closer_def abs_diff_def)

lemma foldl_closer_first_min:
  assumes "\<forall>g \<in> set (f # rest). Number_isFinite (timestamp g)" and "Number_isFinite time"
  shows "\<exists>i < length (f # rest).
           foldl (closer time) f rest = (f # rest) ! i \<and>
           (\<forall>j < length (f # rest). jle (abs_diff time ((f # rest) ! i)) (abs_diff time ((f # rest) ! j))) \<and>
           (\<forall>j < i. jlt (abs_diff time ((f # rest) ! i)) (abs_diff time ((f # rest) ! j)))"
  using assms(1)
proof (induction rest rule: rev_induct)
  case Nil
  obtain r where "abs_diff time f = Fin r"
    using abs_diff_Fin[of f time] Nil assms(2) by auto
  then show ?case by simp
next
  case (snoc x xs)
  let ?ys = "f # xs"
  have fin: "\<forall>g \<in> set ?ys. Number_isFinite (timestamp g)" using snoc.prems by simp
  from snoc.IH[OF fin] obtain i where i: "i < length ?ys"
    and res: "foldl (closer time) f xs = ?ys ! i"
    and mn: "\<forall>j < length ?ys. jle (abs_diff time (?ys ! i)) (abs_diff time (?ys ! j))"
    and fst: "\<forall>j < i. jlt (abs_diff time (?ys ! i)) (abs_diff time (?ys ! j))"
    by blast
  have finx: "Number_isFinite (timestamp x)" using snoc.prems by simp
  obtain rx where rx: "abs_diff time x = Fin rx"
    using abs_diff_Fin[OF finx assms(2)] by blast
  have "?ys ! i \<in> set ?ys" using i nth_mem by blast
  then obtain ri where ri: "abs_diff time (?ys ! i) = Fin ri"
    using abs_diff_Fin[of "?ys ! i" time] fin assms(2) by blast
  have rj: "\<exists>r. abs_diff time (?ys ! j) = Fin r" if "j < length ?ys" for j
    using abs_diff_Fin[of "?ys ! j" time] fin assms(2) nth_mem[OF that] by blast
  have nth_old: "(f # xs @ [x]) ! j = ?ys ! j" if "j < length ?ys" for j
    using that by (metis append_Cons nth_append)
  have nth_new: "(f # xs @ [x]) ! length ?ys = x"
    by (metis append_Cons nth_append_length)
  have step: "foldl (closer time) f (xs @ [x]) = closer time (?ys ! i) x"
    using res by simp
  show ?case
  proof (cases "rx < ri")
    case True
    have r: "foldl (closer time) f (xs @ [x]) = x"
      using step True rx ri by (simp add: closer_abs_diff)
    have a: "jle (abs_diff time x) (abs_diff time ((f # xs @ [x]) ! j))"
      if "j < length (f # xs @ [x])" for j
    proof (cases "j < length ?ys")
      case jl: True
      obtain r' where r': "abs_diff time (?ys ! j) = Fin r'" using rj[OF jl] by blast
      have "ri \<le> r'" using mn jl ri r' by (metis jle.simps(1))
      then show ?thesis using nth_old[OF jl] r' rx True by simp
    next
      case False
      then have "j = length ?ys" using that by simp
      then show ?thesis using nth_new rx by simp
    qed
    have b: "jlt (abs_diff time x) (abs_diff time ((f # xs @ [x]) ! j))"
      if jl: "j < length ?ys" for j
    proof -
      obtain r' where r': "abs_diff time (?ys ! j) = Fin r'" using rj[OF jl] by blast
      have "ri \<le> r'" using mn jl ri r' by (metis jle.simps(1))
      then show ?thesis using nth_old[OF jl] r' rx True by simp
    qed
    show ?thesis
      apply (rule exI[of _ "length ?ys"])
      using r a b nth_new by simp
  next
    case False
    have r: "foldl (closer time) f (xs @ [x]) = ?ys ! i"
      using step False rx ri by (simp add: closer_abs_diff)
    have a: "jle (abs_diff time (?ys ! i)) (abs_diff time ((f # xs @ [x]) ! j))"
      if "j < length (f # xs @ [x])" for j
    proof (cases "j < length ?ys")
      case jl: True
      then show ?thesis using mn nth_old[OF jl] by simp
    next
      case F: False
      then have "j = length ?ys" using that by simp
      then show ?thesis using nth_new rx ri False by simp
    qed
    have b: "jlt (abs_diff time (?ys ! i)) (abs_diff time ((f # xs @ [x]) ! j))"
      if "j < i" for j
      using fst that nth_old[of j] i by simp
    show ?thesis
      apply (rule exI[of _ i])
      using r a b i nth_old[OF i] by simp
  qed
qed


text \<open>
  Claim C4. Over thumbnails with finite timestamps and a finite query time, the lookup
  returns a thumbnail of the sequence whose distance from the query is minimal, and the
  first such one: every thumbnail before it is strictly farther. For timestamps
  \<open>[0, 2, 4, 6]\<close> and the query \<open>3\<close> that is the thumbnail at \<open>2\<close>. On the empty sequence
  the lookup returns nothing.
\<close>

theorem findFrame_nearest:
  assumes "\<forall>g \<in> set fs. Number_isFinite (timestamp g)" and "Number_isFinite time"
  shows "findFrame [] time = None \<and>
         (fs \<noteq> [] \<longrightarrow>
            (\<exists>i < length fs.
               findFrame fs time = Some (fs ! i) \<and>
               (\<forall>j < length fs. jle (abs_diff time (fs ! i)) (abs_diff time (fs ! j))) \<and>
               (\<forall>j < i. jlt (abs_diff time (fs ! i)) (abs_diff time (fs ! j))))) \<and>
         findFrame [\<lparr>timestamp = Fin 0, url = u0\<rparr>, \<lparr>timestamp = Fin 2, url = u1\<rparr>,
                    \<lparr>timestamp = Fin 4, url = u2\<rparr>, \<lparr>timestamp = Fin 6, url = u3\<rparr>] (Fin 3)
           = Some \<lparr>timestamp = Fin 2, url = u1\<rparr>"
proof (intro conjI impI)
  show "findFrame [] time = None" by (simp add: findFrame_def)
next
  assume "fs \<noteq> []"
  then obtain f rest where fs: "fs = f # rest" by (cases fs) auto
  show "\<exists>i < length fs.
               findFrame fs time = Some (fs ! i) \<and>
               (\<forall>j < length fs. jle (abs_diff time (fs ! i)) (abs_diff time (fs ! j))) \<and>
               (\<forall>j < i. jlt (abs_diff time (fs ! i)) (abs_diff time (fs ! j)))"
    using foldl_closer_first_min[of f rest time] assms unfolding fs
    by (simp add: findFrame_def)
next
  show "findFrame [\<lparr>timestamp = Fin 0, url = u0\<rparr>, \<lparr>timestamp = Fin 2, url = u1\<rparr>,
                    \<lparr>timestamp = Fin 4, url = u2\<rparr>, \<lparr>timestamp = Fin 6, url = u3\<rparr>] (Fin 3)
           = Some \<lparr>timestamp = Fin 2, url = u1\<rparr>"
    by (simp add: findFrame_def closer_def jsub_def)
qed

theorem findFrame_nearest_witness:
  "list_all (\<lambda>g. Number_isFinite (timestamp g))
     [\<lparr>timestamp = Fin 1, url = ''a''\<rparr>, \<lparr>timestamp = Fin 5, url = ''b''\<rparr>,
      \<lparr>timestamp = Fin 3, url = ''c''\<rparr>] \<and>
   Number_isFinite (Fin 4) \<and>
   findFrame [\<lparr>timestamp = Fin 1, url = ''a''\<rparr>, \<lparr>timestamp = Fin 5, url = ''b''\<rparr>,
              \<lparr>timestamp = Fin 3, url = ''c''\<rparr>] (Fin 4) = Some \<lparr>timestamp = Fin 5, url = ''b''\<rparr> \<and>
   findFrame [\<lparr>timestamp = Fin 0, url = ''p''\<rparr>, \<lparr>timestamp = Fin 2, url = ''q''\<rparr>,
              \<lparr>timestamp = Fin 4, url = ''r''\<rparr>, \<lparr>timestamp = Fin 6, url = ''s''\<rparr>] (Fin 3)
     = Some \<lparr>timestamp = Fin 2, url = ''q''\<rparr>"
  using findFrame_nearest[of "[\<lparr>timestamp = Fin 1, url = ''a''\<rparr>, \<lparr>timestamp = Fin 5, url = ''b''\<rparr>,
                \<lparr>timestamp = Fin 3, url = ''c''\<rparr>]" "Fin 4" "''p''" "''q''" "''r''" "''s''"]
  by (simp add: findFrame_def closer_def jsub_def)

section \<open>The timeline controller\<close>

lemma jsub_Fin: "jsub (Fin a) (Fin b) = Fin (a - b)"
  by (simp add: jsub_def)

lemma Math_max_Fin: "Math_max (Fin a) (Fin b) = Fin (max a b)"
  by (simp add: Math_max_def max_def)

lemma Math_min_Fin: "Math_min (Fin a) (Fin b) = Fin (min a b)"
  by (simp add: Math_min_def min_def)

lemma clamp_Fin: "clamp (Fin v) (Fin lo) (Fin hi) = Fin (min (max v lo) hi)"
  by (simp add: clamp_def Math_max_Fin Math_min_Fin)

lemma jeq_Fin: "jeq (Fin a) (Fin b) = (a = b)"
  by (simp add: jeq_def)





lemma TimeRange_inv_Fin:
  "TimeRange_inv (Fin d) \<lparr>tr_start = Fin a, tr_end = Fin b\<rparr> =
     (0 \<le> a \<and> a \<le> b \<and> b \<le> d \<and> min 0.5 d \<le> b - a)"
  by (simp add: TimeRange_inv_def jsub_Fin Math_min_Fin)



lemma Math_max_zero_slack:
  assumes "TimeRange_inv d r"
  shows "Math_max (Fin 0) (jsub d (jsub (tr_end r) (tr_start r)))
           = jsub d (jsub (tr_end r) (tr_start r))"
proof -
  obtain x y where r: "r = \<lparr>tr_start = x, tr_end = y\<rparr>" by (cases r) auto
  show ?thesis using assms unfolding r TimeRange_inv_def
    by (cases x; cases y; cases d) (simp_all add: jsub_def Math_max_def)
qed

text \<open>
  Claim C2. While a drag session is active (axis element present, duration not zero)
  and its origin range satisfies the range invariant, a pointer-move emits the range
  the design text prescribes for the session's mode, computed from the displacement
  \<open>(clientX - pointerOriginX) / axisWidth * duration\<close> in Move mode and from the mapped
  pointer time in the two handle modes; the controller's own state is left as it was.
\<close>

theorem drag_update_formulas:
  assumes "c = Some rect" and "\<not> jeq (duration p) (Fin 0)" and "trimDrag s = Some td"
    and "TimeRange_inv (duration p) (startRange td)"
  shows "\<exists>pos. getPosition p c (clientX e) = Some pos \<and>
           handlePointerMove p c e s =
             (s, [OnTrimRangeChange
                    (spec_dragUpdate (mode td) (startRange td) (duration p)
                       (spec_deltaTime (clientX e) (startX td) (rect_width rect) (duration p))
                       (pos_time pos))])"
proof -
  obtain pos where pos: "getPosition p c (clientX e) = Some pos"
    using assms(1,2) by (simp add: getPosition_def Let_def)
  have "handlePointerMove p c e s =
             (s, [OnTrimRangeChange
                    (spec_dragUpdate (mode td) (startRange td) (duration p)
                       (spec_deltaTime (clientX e) (startX td) (rect_width rect) (duration p))
                       (pos_time pos))])"
    using assms(1,2,3) pos Math_max_zero_slack[OF assms(4)]
    by (cases "mode td")
       (simp_all add: handlePointerMove_def spec_dragUpdate_def spec_deltaTime_def Let_def)
  then show ?thesis using pos by blast
qed

theorem drag_update_formulas_witness:
  "TimeRange_inv (Fin 10) \<lparr>tr_start = Fin 2, tr_end = Fin 5\<rparr> \<and>
   handlePointerMove
     \<lparr>duration = Fin 10, currentTime = Fin 0, frames = [],
      trimRange = Some \<lparr>tr_start = Fin 2, tr_end = Fin 5\<rparr>\<rparr>
     (Some \<lparr>rect_left = Fin 0, rect_width = Fin 100\<rparr>)
     \<lparr>clientX = Fin 48, pointerId = 1, pointerType = ''mouse'', role = None\<rparr>
     \<lparr>hoverInfo = None, isScrubbing = False,
      trimDrag = Some \<lparr>mode = Mode_start, startX = Fin 20,
                       startRange = \<lparr>tr_start = Fin 2, tr_end = Fin 5\<rparr>\<rparr>,
      captured = {1}\<rparr>
   = (\<lparr>hoverInfo = None, isScrubbing = False,
       trimDrag = Some \<lparr>mode = Mode_start, startX = Fin 20,
                        startRange = \<lparr>tr_start = Fin 2, tr_end = Fin 5\<rparr>\<rparr>,
       captured = {1}\<rparr>,
      [OnTrimRangeChange \<lparr>tr_start = Fin 4.5, tr_end = Fin 5\<rparr>]) \<and>
   spec_dragUpdate Mode_start \<lparr>tr_start = Fin 2, tr_end = Fin 5\<rparr> (Fin 10)
     (spec_deltaTime (Fin 48) (Fin 20) (Fin 100) (Fin 10)) (Fin 4.8)
   = \<lparr>tr_start = Fin 4.5, tr_end = Fin 5\<rparr>"
  using drag_update_formulas[of
      "Some \<lparr>rect_left = Fin 0, rect_width = Fin 100\<rparr>"
      "\<lparr>rect_left = Fin 0, rect_width = Fin 100\<rparr>"
      "\<lparr>duration = Fin 10, currentTime = Fin 0, frames = [],
        trimRange = Some \<lparr>tr_start = Fin 2, tr_end = Fin 5\<rparr>\<rparr>"
      "\<lparr>hoverInfo = None, isScrubbing = False,
        trimDrag = Some \<lparr>mode = Mode_start, startX = Fin 20,
                         startRange = \<lparr>tr_start = Fin 2, tr_end = Fin 5\<rparr>\<rparr>,
        captured = {1}\<rparr>"
      "\<lparr>mode = Mode_start, startX = Fin 20, startRange = \<lparr>tr_start = Fin 2, tr_end = Fin 5\<rparr>\<rparr>"
      "\<lparr>clientX = Fin 48, pointerId = 1, pointerType = ''mouse'', role = None\<rparr>"]
  by (simp add: handlePointerMove_def getPosition_def spec_dragUpdate_def spec_deltaTime_def
        jeq_Fin jsub_Fin Math_max_Fin Math_min_Fin clamp_Fin TimeRange_inv_Fin Let_def)

text \<open>
  Claim C3, as stated, fails on an axis of width zero: with a duration of 10, a
  pointer-down at the axis's left edge divides zero by zero, and a seek to
  \<^verbatim>\<open>NaN\<close> is issued and scrubbing begins.
\<close>

theorem zero_width_seek_counterexample:
  "handlePointerDown
     \<lparr>duration = Fin 10, currentTime = Fin 0, frames = [], trimRange = None\<rparr>
     (Some \<lparr>rect_left = Fin 0, rect_width = Fin 0\<rparr>)
     \<lparr>clientX = Fin 0, pointerId = 1, pointerType = ''touch'', role = None\<rparr>
     \<lparr>hoverInfo = None, isScrubbing = False, trimDrag = None, captured = {}\<rparr>
   = (\<lparr>hoverInfo = None, isScrubbing = True, trimDrag = None, captured = {1}\<rparr>,
      [OnSeek NaN])"
  by (simp add: handlePointerDown_def scrubTo_def getPosition_def jeq_Fin jsub_Fin
        Math_max_def Math_min_def signed_inf_def Let_def)

text \<open>
  Claim C3, amended. When the duration is zero no coordinate is mapped at all:
  pointer-down and pointer-move return the state unchanged and invoke no callback,
  and the terminal events and pointer-leave invoke no callback and set no hover
  state. (The handlers have no guard on the axis's width.)
\<close>

theorem zero_duration_noop:
  assumes "jeq (duration p) (Fin 0)"
  shows "getPosition p c cx = None \<and>
         handlePointerDown p c e s = (s, []) \<and>
         handlePointerMove p c e s = (s, []) \<and>
         snd (handlePointerUp c e s) = [] \<and>
         hoverInfo (fst (handlePointerUp c e s)) = hoverInfo s \<and>
         snd (handlePointerCancel c e s) = [] \<and>
         hoverInfo (fst (handlePointerCancel c e s)) = None \<and>
         snd (handlePointerLeave s) = [] \<and>
         (hoverInfo (fst (handlePointerLeave s)) = hoverInfo s \<or>
          hoverInfo (fst (handlePointerLeave s)) = None)"
  using assms
  by (cases c)
     (simp_all add: getPosition_def handlePointerDown_def handlePointerMove_def
        handlePointerUp_def handlePointerCancel_def handlePointerLeave_def releaseCapture_def
        jeq_Fin)

theorem zero_duration_noop_witness:
  "jeq (Fin 0) (Fin 0) \<and>
   handlePointerDown
     \<lparr>duration = Fin 0, currentTime = Fin 0, frames = [], trimRange = None\<rparr>
     (Some \<lparr>rect_left = Fin 0, rect_width = Fin 100\<rparr>)
     \<lparr>clientX = Fin 30, pointerId = 1, pointerType = ''mouse'', role = None\<rparr>
     \<lparr>hoverInfo = None, isScrubbing = False, trimDrag = None, captured = {}\<rparr>
   = (\<lparr>hoverInfo = None, isScrubbing = False, trimDrag = None, captured = {}\<rparr>, []) \<and>
   handlePointerMove
     \<lparr>duration = Fin 0, currentTime = Fin 0, frames = [], trimRange = None\<rparr>
     (Some \<lparr>rect_left = Fin 0, rect_width = Fin 100\<rparr>)
     \<lparr>clientX = Fin 30, pointerId = 1, pointerType = ''mouse'', role = None\<rparr>
     \<lparr>hoverInfo = None, isScrubbing = False, trimDrag = None, captured = {}\<rparr>
   = (\<lparr>hoverInfo = None, isScrubbing = False, trimDrag = None, captured = {}\<rparr>, [])"
  using zero_duration_noop[of
      "\<lparr>duration = Fin 0, currentTime = Fin 0, frames = [], trimRange = None\<rparr>"
      "Some \<lparr>rect_left = Fin 0, rect_width = Fin 100\<rparr>" "Fin 30"
      "\<lparr>clientX = Fin 30, pointerId = 1, pointerType = ''mouse'', role = None\<rparr>"
      "\<lparr>hoverInfo = None, isScrubbing = False, trimDrag = None, captured = {}\<rparr>"]
  by (simp add: jeq_Fin)

text \<open>
  Claim C5. On a pointer-down with the axis element present and a duration above zero:
  with a trim range active, a target tagged as the trim body, the start handle or the
  end handle captures the pointer and opens a drag session in mode Move, AdjustStart or
  AdjustEnd, holding the pointer's x and the current range, with no callback invoked
  and the scrubbing flag untouched; with no trim range, whatever the target's tag, the
  pointer is captured, scrubbing begins and one seek to the mapped time is issued.
\<close>

theorem pointer_down_hit_test:
  assumes "c = Some rect" and "jlt (Fin 0) (duration p)"
  shows "(trimRange p = Some tr \<longrightarrow>
            (role e = Some ''trim-range'' \<longrightarrow>
               handlePointerDown p c e s =
                 (s\<lparr>captured := insert (pointerId e) (captured s),
                    trimDrag := Some \<lparr>mode = Mode_move, startX = clientX e, startRange = tr\<rparr>\<rparr>, [])) \<and>
            (role e = Some ''trim-handle-start'' \<longrightarrow>
               handlePointerDown p c e s =
                 (s\<lparr>captured := insert (pointerId e) (captured s),
                    trimDrag := Some \<lparr>mode = Mode_start, startX = clientX e, startRange = tr\<rparr>\<rparr>, [])) \<and>
            (role e = Some ''trim-handle-end'' \<longrightarrow>
               handlePointerDown p c e s =
                 (s\<lparr>captured := insert (pointerId e) (captured s),
                    trimDrag := Some \<lparr>mode = Mode_end, startX = clientX e, startRange = tr\<rparr>\<rparr>, []))) \<and>
         (trimRange p = None \<longrightarrow>
            (\<exists>pos. getPosition p c (clientX e) = Some pos \<and>
                   snd (handlePointerDown p c e s) = [OnSeek (pos_time pos)] \<and>
                   isScrubbing (fst (handlePointerDown p c e s)) \<and>
                   trimDrag (fst (handlePointerDown p c e s)) = trimDrag s \<and>
                   captured (fst (handlePointerDown p c e s)) = insert (pointerId e) (captured s)))"
proof -
  have d0: "\<not> jeq (duration p) (Fin 0)"
    using assms(2) by (cases "duration p") (simp_all add: jeq_def)
  obtain pos where pos: "getPosition p c (clientX e) = Some pos"
    using assms(1) d0 by (simp add: getPosition_def Let_def)
  have trim: "trimRange p = Some tr \<Longrightarrow> is_trim_role (role e) \<Longrightarrow>
      handlePointerDown p c e s =
        (s\<lparr>captured := insert (pointerId e) (captured s),
            trimDrag := Some \<lparr>mode = (if role e = Some ''trim-range'' then Mode_move
                                       else if role e = Some ''trim-handle-start'' then Mode_start
                                       else Mode_end),
                              startX = clientX e, startRange = tr\<rparr>\<rparr>, [])"
    using assms(1) d0 by (simp add: handlePointerDown_def Let_def)
  have scrub: "trimRange p = None \<Longrightarrow>
      handlePointerDown p c e s =
        (let s1 = s\<lparr>captured := insert (pointerId e) (captured s), isScrubbing := True\<rparr>
         in (if pointerType e = ''mouse'' then updateHover p c (clientX e) s1 else s1,
             [OnSeek (pos_time pos)]))"
    using assms(1) d0 pos by (simp add: handlePointerDown_def scrubTo_def Let_def)
  show ?thesis
  proof (intro conjI impI)
    assume "trimRange p = Some tr" "role e = Some ''trim-range''"
    then show "handlePointerDown p c e s =
                 (s\<lparr>captured := insert (pointerId e) (captured s),
                    trimDrag := Some \<lparr>mode = Mode_move, startX = clientX e, startRange = tr\<rparr>\<rparr>, [])"
      using trim by (simp add: is_trim_role_def)
  next
    assume "trimRange p = Some tr" "role e = Some ''trim-handle-start''"
    then show "handlePointerDown p c e s =
                 (s\<lparr>captured := insert (pointerId e) (captured s),
                    trimDrag := Some \<lparr>mode = Mode_start, startX = clientX e, startRange = tr\<rparr>\<rparr>, [])"
      using trim by (simp add: is_trim_role_def)
  next
    assume "trimRange p = Some tr" "role e = Some ''trim-handle-end''"
    then show "handlePointerDown p c e s =
                 (s\<lparr>captured := insert (pointerId e) (captured s),
                    trimDrag := Some \<lparr>mode = Mode_end, startX = clientX e, startRange = tr\<rparr>\<rparr>, [])"
      using trim by (simp add: is_trim_role_def)
  next
    assume "trimRange p = None"
    then show "\<exists>pos. getPosition p c (clientX e) = Some pos \<and>
                   snd (handlePointerDown p c e s) = [OnSeek (pos_time pos)] \<and>
                   isScrubbing (fst (handlePointerDown p c e s)) \<and>
                   trimDrag (fst (handlePointerDown p c e s)) = trimDrag s \<and>
                   captured (fst (handlePointerDown p c e s)) = insert (pointerId e) (captured s)"
      using scrub pos by (simp add: Let_def updateHover_def)
  qed
qed

theorem pointer_down_hit_test_witness:
  "jlt (Fin 0) (Fin 10) \<and>
   handlePointerDown
     \<lparr>duration = Fin 10, currentTime = Fin 0, frames = [],
      trimRange = Some \<lparr>tr_start = Fin 2, tr_end = Fin 5\<rparr>\<rparr>
     (Some \<lparr>rect_left = Fin 0, rect_width = Fin 100\<rparr>)
     \<lparr>clientX = Fin 30, pointerId = 1, pointerType = ''mouse'', role = Some ''trim-range''\<rparr>
     \<lparr>hoverInfo = None, isScrubbing = False, trimDrag = None, captured = {}\<rparr>
   = (\<lparr>hoverInfo = None, isScrubbing = False,
       trimDrag = Some \<lparr>mode = Mode_move, startX = Fin 30,
                        startRange = \<lparr>tr_start = Fin 2, tr_end = Fin 5\<rparr>\<rparr>,
       captured = {1}\<rparr>, []) \<and>
   snd (handlePointerDown
     \<lparr>duration = Fin 10, currentTime = Fin 0, frames = [], trimRange = None\<rparr>
     (Some \<lparr>rect_left = Fin 0, rect_width = Fin 100\<rparr>)
     \<lparr>clientX = Fin 30, pointerId = 1, pointerType = ''mouse'', role = Some ''trim-range''\<rparr>
     \<lparr>hoverInfo = None, isScrubbing = False, trimDrag = None, captured = {}\<rparr>)
   = [OnSeek (Fin 3)]"
  using pointer_down_hit_test[of
      "Some \<lparr>rect_left = Fin 0, rect_width = Fin 100\<rparr>"
      "\<lparr>rect_left = Fin 0, rect_width = Fin 100\<rparr>"
      "\<lparr>duration = Fin 10, currentTime = Fin 0, frames = [],
        trimRange = Some \<lparr>tr_start = Fin 2, tr_end = Fin 5\<rparr>\<rparr>"
      "\<lparr>tr_start = Fin 2, tr_end = Fin 5\<rparr>"
      "\<lparr>clientX = Fin 30, pointerId = 1, pointerType = ''mouse'', role = Some ''trim-range''\<rparr>"
      "\<lparr>hoverInfo = None, isScrubbing = False, trimDrag = None, captured = {}\<rparr>"]
    pointer_down_hit_test[of
      "Some \<lparr>rect_left = Fin 0, rect_width = Fin 100\<rparr>"
      "\<lparr>rect_left = Fin 0, rect_width = Fin 100\<rparr>"
      "\<lparr>duration = Fin 10, currentTime = Fin 0, frames = [], trimRange = None\<rparr>"
      "\<lparr>tr_start = Fin 2, tr_end = Fin 5\<rparr>"
      "\<lparr>clientX = Fin 30, pointerId = 1, pointerType = ''mouse'', role = Some ''trim-range''\<rparr>"
      "\<lparr>hoverInfo = None, isScrubbing = False, trimDrag = None, captured = {}\<rparr>"]
  by (simp add: getPosition_def jeq_Fin jsub_Fin Math_max_Fin Math_min_Fin Let_def)

text \<open>
  Claim C7. Pointer-up and pointer-cancel invoke no callback, clear the drag session
  and the scrubbing flag and, when the axis element exists, release the pointer's
  capture; pointer-up leaves the hover state as it was, pointer-cancel clears it.
\<close>

theorem terminal_event_resets:
  "snd (handlePointerUp c e s) = [] \<and>
   trimDrag (fst (handlePointerUp c e s)) = None \<and>
   isScrubbing (fst (handlePointerUp c e s)) = False \<and>
   hoverInfo (fst (handlePointerUp c e s)) = hoverInfo s \<and>
   (c \<noteq> None \<longrightarrow> captured (fst (handlePointerUp c e s)) = captured s - {pointerId e}) \<and>
   snd (handlePointerCancel c e s) = [] \<and>
   trimDrag (fst (handlePointerCancel c e s)) = None \<and>
   isScrubbing (fst (handlePointerCancel c e s)) = False \<and>
   hoverInfo (fst (handlePointerCancel c e s)) = None \<and>
   (c \<noteq> None \<longrightarrow> captured (fst (handlePointerCancel c e s)) = captured s - {pointerId e})"
  by (cases c) (auto simp: handlePointerUp_def handlePointerCancel_def releaseCapture_def)

theorem terminal_event_resets_witness:
  "handlePointerUp (Some \<lparr>rect_left = Fin 0, rect_width = Fin 100\<rparr>)
     \<lparr>clientX = Fin 30, pointerId = 1, pointerType = ''mouse'', role = None\<rparr>
     \<lparr>hoverInfo = Some \<lparr>hover_x = Fin 30, hover_time = Fin 3, hover_url = None\<rparr>,
      isScrubbing = False,
      trimDrag = Some \<lparr>mode = Mode_move, startX = Fin 20,
                       startRange = \<lparr>tr_start = Fin 2, tr_end = Fin 5\<rparr>\<rparr>,
      captured = {1}\<rparr>
   = (\<lparr>hoverInfo = Some \<lparr>hover_x = Fin 30, hover_time = Fin 3, hover_url = None\<rparr>,
       isScrubbing = False, trimDrag = None, captured = {}\<rparr>, []) \<and>
   handlePointerCancel (Some \<lparr>rect_left = Fin 0, rect_width = Fin 100\<rparr>)
     \<lparr>clientX = Fin 30, pointerId = 1, pointerType = ''mouse'', role = None\<rparr>
     \<lparr>hoverInfo = Some \<lparr>hover_x = Fin 30, hover_time = Fin 3, hover_url = None\<rparr>,
      isScrubbing = False,
      trimDrag = Some \<lparr>mode = Mode_move, startX = Fin 20,
                       startRange = \<lparr>tr_start = Fin 2, tr_end = Fin 5\<rparr>\<rparr>,
      captured = {1}\<rparr>
   = (\<lparr>hoverInfo = None, isScrubbing = False, trimDrag = None, captured = {}\<rparr>, [])"
  using terminal_event_resets[of "Some \<lparr>rect_left = Fin 0, rect_width = Fin 100\<rparr>"
     "\<lparr>clientX = Fin 30, pointerId = 1, pointerType = ''mouse'', role = None\<rparr>"
     "\<lparr>hoverInfo = Some \<lparr>hover_x = Fin 30, hover_time = Fin 3, hover_url = None\<rparr>,
      isScrubbing = False,
      trimDrag = Some \<lparr>mode = Mode_move, startX = Fin 20,
                       startRange = \<lparr>tr_start = Fin 2, tr_end = Fin 5\<rparr>\<rparr>,
      captured = {1}\<rparr>"]
  by (simp add: handlePointerUp_def handlePointerCancel_def releaseCapture_def)

section \<open>The owning session: position and trim range\<close>

lemma clampToRange_in_range:
  assumes "v \<noteq> NaN" and "jle (tr_start tr) (tr_end tr)"
  shows "in_range (clampToRange v (Some tr)) tr"
proof -
  obtain x y where r: "tr = \<lparr>tr_start = x, tr_end = y\<rparr>" by (cases tr) auto
  show ?thesis using assms unfolding r
    by (cases v; cases x; cases y)
       (simp_all add: in_range_def clampToRange_def Math_max_def Math_min_def)
qed

lemma clampToRange_below:
  assumes "jlt v (tr_start tr)" and "jle (tr_start tr) (tr_end tr)"
  shows "clampToRange v (Some tr) = tr_start tr"
proof -
  obtain x y where r: "tr = \<lparr>tr_start = x, tr_end = y\<rparr>" by (cases tr) auto
  show ?thesis using assms unfolding r
    by (cases v; cases x; cases y)
       (simp_all add: clampToRange_def Math_max_def Math_min_def)
qed

lemma clampToRange_above:
  assumes "jlt (tr_end tr) v" and "jle (tr_start tr) (tr_end tr)"
  shows "clampToRange v (Some tr) = tr_end tr"
proof -
  obtain x y where r: "tr = \<lparr>tr_start = x, tr_end = y\<rparr>" by (cases tr) auto
  show ?thesis using assms unfolding r
    by (cases v; cases x; cases y)
       (simp_all add: clampToRange_def Math_max_def Math_min_def)
qed

lemma clampToRange_clamp: "clampToRange v (Some tr) = clamp v (tr_start tr) (tr_end tr)"
  by (simp add: clampToRange_def clamp_def)

lemma jeq_same: "jeq x y \<Longrightarrow> x = y"
  by (simp add: jeq_def)

lemma normalized_ordered:
  assumes "tr_start r \<noteq> NaN" and "tr_end r \<noteq> NaN"
  shows "jle (tr_start (normalized r)) (tr_end (normalized r))"
  using assms by (cases "tr_start r"; cases "tr_end r") (simp_all add: normalized_def)

lemma updateTrimRange_result:
  assumes "videoRef a = Some el"
  shows "app_trimRange (updateTrimRange r a) = Some (normalized r) \<and>
         videoRef (updateTrimRange r a) =
           Some (el\<lparr>el_currentTime := clampToRange (el_currentTime el) (Some (normalized r))\<rparr>) \<and>
         v_isPlaying (video (updateTrimRange r a)) = v_isPlaying (video a) \<and>
         v_currentTime (video (updateTrimRange r a)) =
           (if jeq (clampToRange (el_currentTime el) (Some (normalized r))) (el_currentTime el)
            then v_currentTime (video a)
            else clampToRange (el_currentTime el) (Some (normalized r)))"
proof (cases "jeq (clampToRange (el_currentTime el) (Some (normalized r))) (el_currentTime el)")
  case True
  then have "el\<lparr>el_currentTime := clampToRange (el_currentTime el) (Some (normalized r))\<rparr> = el"
    using jeq_same by fastforce
  then show ?thesis using True assms
    by (simp add: updateTrimRange_def normalized_def Let_def)
next
  case False
  then show ?thesis using assms
    by (simp add: updateTrimRange_def normalized_def Let_def)
qed

text \<open>
  Claim C6, as stated, fails in its second half. During playback at position 1, a
  trim-range change to \<open>[2, 5]\<close> leaves the position outside the new range; the
  session moves it to 2 and playback goes on, the element not paused. The position
  report that follows finds the position inside the range and pauses nothing either.
\<close>

theorem updateTrimRange_no_pause_counterexample:
  "updateTrimRange \<lparr>tr_start = Fin 2, tr_end = Fin 5\<rparr>
     \<lparr>video = \<lparr>v_duration = Fin 10, v_currentTime = Fin 1, v_isPlaying = True,
                v_isProcessing = False, v_frames = []\<rparr>,
      app_trimRange = Some \<lparr>tr_start = Fin 0, tr_end = Fin 10\<rparr>,
      videoRef = Some \<lparr>el_currentTime = Fin 1, el_paused = False\<rparr>\<rparr>
   = \<lparr>video = \<lparr>v_duration = Fin 10, v_currentTime = Fin 2, v_isPlaying = True,
                v_isProcessing = False, v_frames = []\<rparr>,
      app_trimRange = Some \<lparr>tr_start = Fin 2, tr_end = Fin 5\<rparr>,
      videoRef = Some \<lparr>el_currentTime = Fin 2, el_paused = False\<rparr>\<rparr> \<and>
   handleTimeUpdate
     \<lparr>video = \<lparr>v_duration = Fin 10, v_currentTime = Fin 2, v_isPlaying = True,
                v_isProcessing = False, v_frames = []\<rparr>,
      app_trimRange = Some \<lparr>tr_start = Fin 2, tr_end = Fin 5\<rparr>,
      videoRef = Some \<lparr>el_currentTime = Fin 2, el_paused = False\<rparr>\<rparr>
   = \<lparr>video = \<lparr>v_duration = Fin 10, v_currentTime = Fin 2, v_isPlaying = True,
                v_isProcessing = False, v_frames = []\<rparr>,
      app_trimRange = Some \<lparr>tr_start = Fin 2, tr_end = Fin 5\<rparr>,
      videoRef = Some \<lparr>el_currentTime = Fin 2, el_paused = False\<rparr>\<rparr>"
  by (simp add: updateTrimRange_def handleTimeUpdate_def normalized_def clampToRange_def
        Math_max_def Math_min_def jeq_def Let_def)

text \<open>
  Claim C6, amended. With a media element attached, a trim-range change stores the range
  (its ends put in order) and sets the element's position to the old position clamped
  into it, which for a range that arrives in order is \<open>clamp(currentTime, start, end)\<close>;
  it changes neither the element's paused flag nor the session's playing flag.
\<close>

theorem updateTrimRange_reclamps:
  assumes "videoRef a = Some el"
  shows "\<exists>el'. videoRef (updateTrimRange r a) = Some el' \<and>
           app_trimRange (updateTrimRange r a) = Some (normalized r) \<and>
           el_currentTime el' =
             clamp (el_currentTime el) (tr_start (normalized r)) (tr_end (normalized r)) \<and>
           (jle (tr_start r) (tr_end r) \<longrightarrow>
              el_currentTime el' = clamp (el_currentTime el) (tr_start r) (tr_end r)) \<and>
           el_paused el' = el_paused el \<and>
           v_isPlaying (video (updateTrimRange r a)) = v_isPlaying (video a)"
  using updateTrimRange_result[OF assms, of r]
  by (auto simp: clampToRange_clamp normalized_def)

theorem updateTrimRange_reclamps_witness:
  "(let a' = updateTrimRange \<lparr>tr_start = Fin 2, tr_end = Fin 5\<rparr>
       \<lparr>video = \<lparr>v_duration = Fin 10, v_currentTime = Fin 1, v_isPlaying = False,
                  v_isProcessing = False, v_frames = []\<rparr>,
        app_trimRange = Some \<lparr>tr_start = Fin 0, tr_end = Fin 10\<rparr>,
        videoRef = Some \<lparr>el_currentTime = Fin 1, el_paused = True\<rparr>\<rparr>
    in videoRef a' = Some \<lparr>el_currentTime = Fin 2, el_paused = True\<rparr> \<and>
       app_trimRange a' = Some \<lparr>tr_start = Fin 2, tr_end = Fin 5\<rparr>) \<and>
   jle (Fin 2) (Fin 5) \<and>
   clamp (Fin 1) (Fin 2) (Fin 5) = Fin 2"
  using updateTrimRange_reclamps[of
       "\<lparr>video = \<lparr>v_duration = Fin 10, v_currentTime = Fin 1, v_isPlaying = False,
                  v_isProcessing = False, v_frames = []\<rparr>,
        app_trimRange = Some \<lparr>tr_start = Fin 0, tr_end = Fin 10\<rparr>,
        videoRef = Some \<lparr>el_currentTime = Fin 1, el_paused = True\<rparr>\<rparr>"
       "\<lparr>el_currentTime = Fin 1, el_paused = True\<rparr>"
       "\<lparr>tr_start = Fin 2, tr_end = Fin 5\<rparr>"]
  by (auto simp: normalized_def clamp_def Math_max_def Math_min_def Let_def)

lemma handleSeek_result:
  assumes "videoRef a = Some el"
  shows "handleSeek time a =
           a\<lparr>videoRef := Some (el\<lparr>el_currentTime := clampToRange time (app_trimRange a)\<rparr>),
             video := (video a)\<lparr>v_currentTime := clampToRange time (app_trimRange a)\<rparr>\<rparr>"
  using assms by (simp add: handleSeek_def Let_def)

lemma jle_refl_iff: "jle x x = (x \<noteq> NaN)"
  by (cases x) simp_all

lemma ordered_not_NaN: "jle x y \<Longrightarrow> x \<noteq> NaN \<and> y \<noteq> NaN"
  by (cases x; cases y) simp_all

lemma between_in_range:
  assumes "v \<noteq> NaN" and "\<not> jlt v (tr_start tr)" and "\<not> jlt (tr_end tr) v"
    and "jle (tr_start tr) (tr_end tr)"
  shows "in_range v tr"
proof -
  obtain x y where r: "tr = \<lparr>tr_start = x, tr_end = y\<rparr>" by (cases tr) auto
  show ?thesis using assms unfolding r
    by (cases v; cases x; cases y) (simp_all add: in_range_def)
qed

lemma handleTimeUpdate_in_range:
  assumes ref: "videoRef a = Some el" and tr: "app_trimRange a = Some tr"
    and ord: "jle (tr_start tr) (tr_end tr)" and cur: "el_currentTime el \<noteq> NaN"
  shows "\<exists>el'. videoRef (handleTimeUpdate a) = Some el' \<and>
           in_range (el_currentTime el') tr \<and>
           v_currentTime (video (handleTimeUpdate a)) = el_currentTime el' \<and>
           app_trimRange (handleTimeUpdate a) = Some tr \<and>
           (jlt (el_currentTime el) (tr_start tr) \<longrightarrow> el_currentTime el' = tr_start tr) \<and>
           (jlt (tr_end tr) (el_currentTime el) \<longrightarrow>
              el_currentTime el' = tr_end tr \<and> el_paused el' \<and>
              \<not> v_isPlaying (video (handleTimeUpdate a)))"
proof -
  have nn: "tr_start tr \<noteq> NaN" "tr_end tr \<noteq> NaN" using ordered_not_NaN[OF ord] by simp_all
  have lo: "in_range (tr_start tr) tr" using ord nn by (simp add: in_range_def jle_refl_iff)
  have hi: "in_range (tr_end tr) tr" using ord nn by (simp add: in_range_def jle_refl_iff)
  have excl: "jlt (el_currentTime el) (tr_start tr) \<Longrightarrow> \<not> jlt (tr_end tr) (el_currentTime el)"
    using ord by (cases "el_currentTime el"; cases "tr_start tr"; cases "tr_end tr") simp_all
  consider (below) "jlt (el_currentTime el) (tr_start tr)"
    | (above) "\<not> jlt (el_currentTime el) (tr_start tr)" "jlt (tr_end tr) (el_currentTime el)"
    | (inside) "\<not> jlt (el_currentTime el) (tr_start tr)" "\<not> jlt (tr_end tr) (el_currentTime el)"
    by blast
  then show ?thesis
  proof cases
    case below
    then show ?thesis using ref tr lo excl by (simp add: handleTimeUpdate_def Let_def)
  next
    case above
    then show ?thesis using ref tr hi by (simp add: handleTimeUpdate_def Let_def)
  next
    case inside
    then show ?thesis using ref tr between_in_range[OF cur inside ord]
      by (simp add: handleTimeUpdate_def Let_def)
  qed
qed

lemma handlePlayPause_position:
  assumes ref: "videoRef a = Some el" and tr: "app_trimRange a = Some tr"
    and ord: "jle (tr_start tr) (tr_end tr)" and cur: "el_currentTime el \<noteq> NaN"
  shows "\<exists>el'. videoRef (handlePlayPause a) = Some el' \<and>
           app_trimRange (handlePlayPause a) = Some tr \<and>
           (if v_isPlaying (video a) then el_currentTime el' = el_currentTime el
            else in_range (el_currentTime el') tr)"
proof (cases "v_isPlaying (video a)")
  case True
  then show ?thesis using ref tr by (simp add: handlePlayPause_def)
next
  case False
  have nn: "tr_start tr \<noteq> NaN" using ordered_not_NaN[OF ord] by simp
  define v where "v = (if Number_isFinite (tr_end tr) \<and>
                          jle (jsub (tr_end tr) (Fin 0.02)) (el_currentTime el)
                       then tr_start tr else el_currentTime el)"
  have vn: "v \<noteq> NaN" using nn cur by (simp add: v_def)
  have pos: "el_currentTime (the (videoRef (handlePlayPause a))) = clampToRange v (Some tr)"
    using ref tr False
    by (auto simp: handlePlayPause_def Let_def v_def dest: jeq_same)
  have "videoRef (handlePlayPause a) \<noteq> None"
    using ref False by (simp add: handlePlayPause_def Let_def)
  then obtain el' where el': "videoRef (handlePlayPause a) = Some el'" by blast
  have "app_trimRange (handlePlayPause a) = Some tr"
    using ref tr False by (simp add: handlePlayPause_def Let_def)
  then show ?thesis
    using el' pos False clampToRange_in_range[OF vn ord] by simp
qed

text \<open>
  Claim C10. With a media element attached and an ordered trim range active, and no
  \<^verbatim>\<open>NaN\<close> among the times involved: a seek leaves the position inside the range
  (a time below the start lands on the start, one above the end on the end) and the
  session's copy equal to it; a position report leaves it inside the range, forced to
  the start from below, and to the end with playback paused from above; a trim-range
  update leaves it inside the new range; and the play/pause toggle leaves it in place
  when pausing and inside the range when starting.
\<close>

theorem position_stays_in_trim_range:
  assumes ref: "videoRef a = Some el" and tr: "app_trimRange a = Some tr"
    and ord: "jle (tr_start tr) (tr_end tr)"
  shows
    "(time \<noteq> NaN \<longrightarrow>
        (\<exists>el'. videoRef (handleSeek time a) = Some el' \<and>
           in_range (el_currentTime el') tr \<and>
           v_currentTime (video (handleSeek time a)) = el_currentTime el' \<and>
           app_trimRange (handleSeek time a) = Some tr \<and>
           (jlt time (tr_start tr) \<longrightarrow> el_currentTime el' = tr_start tr) \<and>
           (jlt (tr_end tr) time \<longrightarrow> el_currentTime el' = tr_end tr))) \<and>
     (el_currentTime el \<noteq> NaN \<longrightarrow>
        (\<exists>el'. videoRef (handleTimeUpdate a) = Some el' \<and>
           in_range (el_currentTime el') tr \<and>
           v_currentTime (video (handleTimeUpdate a)) = el_currentTime el' \<and>
           app_trimRange (handleTimeUpdate a) = Some tr \<and>
           (jlt (el_currentTime el) (tr_start tr) \<longrightarrow> el_currentTime el' = tr_start tr) \<and>
           (jlt (tr_end tr) (el_currentTime el) \<longrightarrow>
              el_currentTime el' = tr_end tr \<and> el_paused el' \<and>
              \<not> v_isPlaying (video (handleTimeUpdate a))))) \<and>
     (el_currentTime el \<noteq> NaN \<and> tr_start r \<noteq> NaN \<and> tr_end r \<noteq> NaN \<longrightarrow>
        (\<exists>el'. videoRef (updateTrimRange r a) = Some el' \<and>
           app_trimRange (updateTrimRange r a) = Some (normalized r) \<and>
           in_range (el_currentTime el') (normalized r))) \<and>
     (el_currentTime el \<noteq> NaN \<longrightarrow>
        (\<exists>el'. videoRef (handlePlayPause a) = Some el' \<and>
           app_trimRange (handlePlayPause a) = Some tr \<and>
           (if v_isPlaying (video a) then el_currentTime el' = el_currentTime el
            else in_range (el_currentTime el') tr)))"
proof (intro conjI impI)
  assume t: "time \<noteq> NaN"
  show "\<exists>el'. videoRef (handleSeek time a) = Some el' \<and>
           in_range (el_currentTime el') tr \<and>
           v_currentTime (video (handleSeek time a)) = el_currentTime el' \<and>
           app_trimRange (handleSeek time a) = Some tr \<and>
           (jlt time (tr_start tr) \<longrightarrow> el_currentTime el' = tr_start tr) \<and>
           (jlt (tr_end tr) time \<longrightarrow> el_currentTime el' = tr_end tr)"
    using handleSeek_result[OF ref, of time] tr clampToRange_in_range[OF t ord]
      clampToRange_below[OF _ ord, of time] clampToRange_above[OF _ ord, of time]
    by simp
next
  assume "el_currentTime el \<noteq> NaN"
  then show "\<exists>el'. videoRef (handleTimeUpdate a) = Some el' \<and>
           in_range (el_currentTime el') tr \<and>
           v_currentTime (video (handleTimeUpdate a)) = el_currentTime el' \<and>
           app_trimRange (handleTimeUpdate a) = Some tr \<and>
           (jlt (el_currentTime el) (tr_start tr) \<longrightarrow> el_currentTime el' = tr_start tr) \<and>
           (jlt (tr_end tr) (el_currentTime el) \<longrightarrow>
              el_currentTime el' = tr_end tr \<and> el_paused el' \<and>
              \<not> v_isPlaying (video (handleTimeUpdate a)))"
    using handleTimeUpdate_in_range[OF ref tr ord] by blast
next
  assume h: "el_currentTime el \<noteq> NaN \<and> tr_start r \<noteq> NaN \<and> tr_end r \<noteq> NaN"
  then have "jle (tr_start (normalized r)) (tr_end (normalized r))"
    using normalized_ordered by blast
  then show "\<exists>el'. videoRef (updateTrimRange r a) = Some el' \<and>
           app_trimRange (updateTrimRange r a) = Some (normalized r) \<and>
           in_range (el_currentTime el') (normalized r)"
    using updateTrimRange_result[OF ref, of r] clampToRange_in_range[of "el_currentTime el" "normalized r"] h
    by simp
next
  assume "el_currentTime el \<noteq> NaN"
  then show "\<exists>el'. videoRef (handlePlayPause a) = Some el' \<and>
           app_trimRange (handlePlayPause a) = Some tr \<and>
           (if v_isPlaying (video a) then el_currentTime el' = el_currentTime el
            else in_range (el_currentTime el') tr)"
    using handlePlayPause_position[OF ref tr ord] by blast
qed

theorem position_stays_in_trim_range_witness:
  "jle (Fin 2) (Fin 5) \<and>
   handleSeek (Fin 9)
     \<lparr>video = \<lparr>v_duration = Fin 10, v_currentTime = Fin 8, v_isPlaying = True,
                v_isProcessing = False, v_frames = []\<rparr>,
      app_trimRange = Some \<lparr>tr_start = Fin 2, tr_end = Fin 5\<rparr>,
      videoRef = Some \<lparr>el_currentTime = Fin 8, el_paused = False\<rparr>\<rparr>
   = \<lparr>video = \<lparr>v_duration = Fin 10, v_currentTime = Fin 5, v_isPlaying = True,
                v_isProcessing = False, v_frames = []\<rparr>,
      app_trimRange = Some \<lparr>tr_start = Fin 2, tr_end = Fin 5\<rparr>,
      videoRef = Some \<lparr>el_currentTime = Fin 5, el_paused = False\<rparr>\<rparr> \<and>
   handleTimeUpdate
     \<lparr>video = \<lparr>v_duration = Fin 10, v_currentTime = Fin 8, v_isPlaying = True,
                v_isProcessing = False, v_frames = []\<rparr>,
      app_trimRange = Some \<lparr>tr_start = Fin 2, tr_end = Fin 5\<rparr>,
      videoRef = Some \<lparr>el_currentTime = Fin 8, el_paused = False\<rparr>\<rparr>
   = \<lparr>video = \<lparr>v_duration = Fin 10, v_currentTime = Fin 5, v_isPlaying = False,
                v_isProcessing = False, v_frames = []\<rparr>,
      app_trimRange = Some \<lparr>tr_start = Fin 2, tr_end = Fin 5\<rparr>,
      videoRef = Some \<lparr>el_currentTime = Fin 5, el_paused = True\<rparr>\<rparr> \<and>
   updateTrimRange \<lparr>tr_start = Fin 6, tr_end = Fin 3\<rparr>
     \<lparr>video = \<lparr>v_duration = Fin 10, v_currentTime = Fin 8, v_isPlaying = True,
                v_isProcessing = False, v_frames = []\<rparr>,
      app_trimRange = Some \<lparr>tr_start = Fin 2, tr_end = Fin 5\<rparr>,
      videoRef = Some \<lparr>el_currentTime = Fin 8, el_paused = False\<rparr>\<rparr>
   = \<lparr>video = \<lparr>v_duration = Fin 10, v_currentTime = Fin 6, v_isPlaying = True,
                v_isProcessing = False, v_frames = []\<rparr>,
      app_trimRange = Some \<lparr>tr_start = Fin 3, tr_end = Fin 6\<rparr>,
      videoRef = Some \<lparr>el_currentTime = Fin 6, el_paused = False\<rparr>\<rparr> \<and>
   in_range (Fin 5) \<lparr>tr_start = Fin 2, tr_end = Fin 5\<rparr> \<and>
   in_range (Fin 6) \<lparr>tr_start = Fin 3, tr_end = Fin 6\<rparr>"
  using position_stays_in_trim_range[of
     "\<lparr>video = \<lparr>v_duration = Fin 10, v_currentTime = Fin 8, v_isPlaying = True,
                v_isProcessing = False, v_frames = []\<rparr>,
      app_trimRange = Some \<lparr>tr_start = Fin 2, tr_end = Fin 5\<rparr>,
      videoRef = Some \<lparr>el_currentTime = Fin 8, el_paused = False\<rparr>\<rparr>"
     "\<lparr>el_currentTime = Fin 8, el_paused = False\<rparr>"
     "\<lparr>tr_start = Fin 2, tr_end = Fin 5\<rparr>" "Fin 9" "\<lparr>tr_start = Fin 6, tr_end = Fin 3\<rparr>"]
  by (simp add: handleSeek_def handleTimeUpdate_def updateTrimRange_def clampToRange_def
        normalized_def in_range_def Math_max_def Math_min_def jeq_def Let_def)

section \<open>The backend handle and the frame extractors\<close>




















end
